theory Spec2Isabelle
  imports Main "HOL-Library.Sublist"
begin

section \<open>Python values and the builtins app.py relies on\<close>

text \<open>
  The module \<^verbatim>\<open>app.py\<close> has two views, \<^verbatim>\<open>process_notes\<close> and
  \<^verbatim>\<open>serve_react\<close>. Both are embedded below as functions of their input and of
  an explicit environment: the JSON parser, the provider client, the clock and the file
  system are collaborators the module calls, so they are fields of the record \<open>env\<close>
  and every theorem holds for each value of them.

  A Python \<^verbatim>\<open>str\<close> is a HOL \<open>string\<close> whose characters are the code points
  below 256. A value produced by a JSON parser is a \<open>json\<close>; a float is carried by
  its \<^verbatim>\<open>repr\<close>, which is all the module ever does with one (it formats it).
\<close>

datatype json =
    JNull
  | JBool bool
  | JInt int
  | JFloat string
  | JStr string
  | JArr "json list"
  | JObj "(string \<times> json) list"

text \<open>Truth value testing, as \<^verbatim>\<open>x or {}\<close> applies it.\<close>

fun truthy :: "json \<Rightarrow> bool" where
  "truthy JNull = False"
| "truthy (JBool b) = b"
| "truthy (JInt n) = (n \<noteq> 0)"
| "truthy (JFloat r) = (r \<noteq> ''0.0'' \<and> r \<noteq> ''-0.0'')"
| "truthy (JStr s) = (s \<noteq> [])"
| "truthy (JArr xs) = (xs \<noteq> [])"
| "truthy (JObj kvs) = (kvs \<noteq> [])"

definition py_or :: "json \<Rightarrow> json \<Rightarrow> json" where
  "py_or a b = (if truthy a then a else b)"

text \<open>\<^verbatim>\<open>type(x).__name__\<close>, for the message of an AttributeError.\<close>

fun type_name :: "json \<Rightarrow> string" where
  "type_name JNull = ''NoneType''"
| "type_name (JBool b) = ''bool''"
| "type_name (JInt n) = ''int''"
| "type_name (JFloat r) = ''float''"
| "type_name (JStr s) = ''str''"
| "type_name (JArr xs) = ''list''"
| "type_name (JObj kvs) = ''dict''"

subsection \<open>Decimal and hexadecimal digits\<close>

definition digit_char :: "nat \<Rightarrow> char" where
  "digit_char d = ''0123456789abcdef'' ! (d mod 16)"

fun str_nat :: "nat \<Rightarrow> string" where
  "str_nat n = (if n < 10 then [digit_char n] else str_nat (n div 10) @ [digit_char (n mod 10)])"

declare str_nat.simps [simp del]

definition str_int :: "int \<Rightarrow> string" where
  "str_int i = (if i < 0 then CHR ''-'' # str_nat (nat (- i)) else str_nat (nat i))"

definition hex2 :: "nat \<Rightarrow> string" where
  "hex2 n = [digit_char (n div 16 mod 16), digit_char (n mod 16)]"

text \<open>\<^verbatim>\<open>s.zfill(k)\<close> for a string of digits.\<close>

definition zfill :: "nat \<Rightarrow> string \<Rightarrow> string" where
  "zfill k s = replicate (k - length s) CHR ''0'' @ s"

subsection \<open>\<^verbatim>\<open>repr\<close> and \<^verbatim>\<open>str\<close>\<close>

definition backslash :: char where
  "backslash = CHR 0x5C"

definition squote :: char where
  "squote = CHR 0x27"

definition dquote :: char where
  "dquote = CHR 0x22"

definition printable :: "char \<Rightarrow> bool" where
  "printable c = (let n = (of_char c :: nat) in (32 \<le> n \<and> n < 127) \<or> (161 \<le> n \<and> n \<noteq> 173))"

definition repr_char :: "char \<Rightarrow> char \<Rightarrow> string" where
  "repr_char q c =
     (if c = q \<or> c = backslash then [backslash, c]
      else if c = CHR 0x09 then [backslash, CHR ''t'']
      else if c = CHR 0x0A then [backslash, CHR ''n'']
      else if c = CHR 0x0D then [backslash, CHR ''r'']
      else if \<not> printable c then [backslash, CHR ''x''] @ hex2 (of_char c)
      else [c])"

definition repr_str :: "string \<Rightarrow> string" where
  "repr_str s =
     (let q = (if squote \<in> set s \<and> dquote \<notin> set s then dquote else squote)
      in [q] @ concat (map (repr_char q) s) @ [q])"

fun join :: "string \<Rightarrow> string list \<Rightarrow> string" where
  "join sep [] = []"
| "join sep [x] = x"
| "join sep (x # y # ys) = x @ sep @ join sep (y # ys)"

fun py_repr :: "json \<Rightarrow> string" where
  "py_repr JNull = ''None''"
| "py_repr (JBool b) = (if b then ''True'' else ''False'')"
| "py_repr (JInt n) = str_int n"
| "py_repr (JFloat r) = r"
| "py_repr (JStr s) = repr_str s"
| "py_repr (JArr xs) = ''['' @ join '', '' (map py_repr xs) @ '']''"
| "py_repr (JObj kvs) =
     ''{'' @ join '', '' (map (\<lambda>(k, v). repr_str k @ '': '' @ py_repr v) kvs) @ ''}''"

text \<open>
  \<^verbatim>\<open>str(x)\<close>, which is what an f-string field \<^verbatim>\<open>{x}\<close> inserts for these
  types: a string as it is, anything else by its \<^verbatim>\<open>repr\<close>.
\<close>

definition py_str :: "json \<Rightarrow> string" where
  "py_str x = (case x of JStr s \<Rightarrow> s | _ \<Rightarrow> py_repr x)"

subsection \<open>String methods\<close>

definition lower_char :: "char \<Rightarrow> char" where
  "lower_char c =
     (let n = (of_char c :: nat)
      in if (65 \<le> n \<and> n \<le> 90) \<or> (192 \<le> n \<and> n \<le> 222 \<and> n \<noteq> 215)
         then char_of (n + 32) else c)"

definition py_lower :: "string \<Rightarrow> string" where
  "py_lower s = map lower_char s"

definition isspace :: "char \<Rightarrow> bool" where
  "isspace c =
     (let n = (of_char c :: nat)
      in (9 \<le> n \<and> n \<le> 13) \<or> (28 \<le> n \<and> n \<le> 32) \<or> n = 133 \<or> n = 160)"

definition py_strip :: "string \<Rightarrow> string" where
  "py_strip s = rev (dropWhile isspace (rev (dropWhile isspace s)))"

text \<open>The operator \<^verbatim>\<open>p in s\<close> on strings.\<close>

fun py_in :: "string \<Rightarrow> string \<Rightarrow> bool" where
  "py_in p [] = (p = [])"
| "py_in p (c # cs) = (prefix p (c # cs) \<or> py_in p cs)"

text \<open>\<^verbatim>\<open>d.get(k, default)\<close> on a dict, and on the other types, which have no such method.\<close>

datatype py_exception = AttributeError string

definition dict_get :: "(string \<times> json) list \<Rightarrow> string \<Rightarrow> json \<Rightarrow> json" where
  "dict_get kvs k dflt = (case map_of kvs k of Some v \<Rightarrow> v | None \<Rightarrow> dflt)"

definition py_get :: "json \<Rightarrow> string \<Rightarrow> json \<Rightarrow> py_exception + json" where
  "py_get d k dflt =
     (case d of
        JObj kvs \<Rightarrow> Inr (dict_get kvs k dflt)
      | _ \<Rightarrow> Inl (AttributeError ([squote] @ type_name d @ [squote]
                 @ '' object has no attribute '' @ [squote] @ ''get'' @ [squote])))"

text \<open>\<^verbatim>\<open>os.path.join(a, b)\<close> of posixpath.\<close>

definition path_join :: "string \<Rightarrow> string \<Rightarrow> string" where
  "path_join a b =
     (if b \<noteq> [] \<and> hd b = CHR ''/'' then b
      else if a = [] \<or> last a = CHR ''/'' then a @ b
      else a @ ''/'' @ b)"

subsection \<open>The clock\<close>

record datetime =
  year :: nat
  month :: nat
  day :: nat
  hour :: nat
  minute :: nat
  second :: nat

text \<open>\<^verbatim>\<open>d.strftime("%Y%m%dT%H%M%SZ")\<close>.\<close>

definition strftime :: "datetime \<Rightarrow> string" where
  "strftime d =
     zfill 4 (str_nat (year d)) @ zfill 2 (str_nat (month d)) @ zfill 2 (str_nat (day d))
     @ ''T'' @ zfill 2 (str_nat (hour d)) @ zfill 2 (str_nat (minute d))
     @ zfill 2 (str_nat (second d)) @ ''Z''"

section \<open>The environment and the state\<close>

text \<open>
  What \<^verbatim>\<open>client.models.generate_content\<close> does: it returns a response, whose
  \<^verbatim>\<open>text\<close> is a string or \<^verbatim>\<open>None\<close> (a response without text parts), or
  it raises an exception, carried by its \<^verbatim>\<open>str\<close>.
\<close>

datatype provider_result = Returns "string option" | Raises string

text \<open>
  What \<^verbatim>\<open>f.write(prompt_text)\<close> and the closing of the file do once
  \<^verbatim>\<open>open\<close> has succeeded: the text is written, or an exception is raised after
  some number of characters of the text have reached the file.
\<close>

datatype write_result = Written | WriteRaises string nat

text \<open>
  \<open>json_loads\<close> is \<^verbatim>\<open>json.loads\<close> on a string (\<open>None\<close> when it raises);
  \<open>generate_content\<close> is the provider call as a function of the prompt it is sent;
  \<open>utcnow\<close> is the clock; \<open>open_w p\<close> is the message of the exception that
  \<^verbatim>\<open>open(p, "w")\<close> raises, if it raises; \<open>file_write p s\<close> is what writing
  \<open>s\<close> to the opened file \<open>p\<close> does; \<open>module_dir\<close> is
  \<^verbatim>\<open>os.path.dirname(__file__)\<close>; \<open>static_folder\<close> is
  \<^verbatim>\<open>app.static_folder\<close>; \<open>path_exists\<close> is \<^verbatim>\<open>os.path.exists\<close>.
\<close>

record env =
  json_loads :: "string \<Rightarrow> json option"
  generate_content :: "string \<Rightarrow> provider_result"
  utcnow :: datetime
  open_w :: "string \<Rightarrow> string option"
  file_write :: "string \<Rightarrow> string \<Rightarrow> write_result"
  module_dir :: string
  static_folder :: string
  path_exists :: "string \<Rightarrow> bool"

text \<open>
  What a request can change: the files written, the lines printed, and the prompts sent
  to the provider so far.
\<close>

record world =
  files :: "string \<rightharpoonup> string"
  stdout :: "string list"
  provider_calls :: "string list"

text \<open>
  A request is answered with \<^verbatim>\<open>jsonify(body)\<close> and a status, with the result of
  \<^verbatim>\<open>send_from_directory(directory, name)\<close>, or, when no URL rule matches, with
  the error page of a status.
\<close>

datatype response = Response nat json | SendFromDirectory string string | Abort nat

definition print :: "world \<Rightarrow> string \<Rightarrow> string \<Rightarrow> world" where
  "print w a b = w\<lparr>stdout := stdout w @ [a @ '' '' @ b]\<rparr>"

definition FAILED_PROMPTS_DIR :: "env \<Rightarrow> string" where
  "FAILED_PROMPTS_DIR e = path_join (module_dir e) ''failed_prompts''"

section \<open>The view process_notes\<close>

definition prompt_head :: string where
  "prompt_head =
       ''\<newline>''
     @ ''    You are a note-taking assistant. The user provides shorthand notes that may be incomplete,\<newline>''
     @ ''    incoherent, or contain symbols. Your job is to expand them into clear notes and return \<newline>''
     @ ''    structured JSON with additional extracted information.\<newline>''
     @ ''\<newline>''
     @ ''    Tones may include: Class Lecture, Formal Meeting, Informal Meeting, Scientific Talk, \<newline>''
     @ ''    Business Plan, Travel Plan.\<newline>''
     @ ''\<newline>''
     @ ''    Rules:\<newline>''
     @ ''    1. Stay faithful to the provided notes, topic, and tone. Do not hallucinate new content.\<newline>''
     @ ''    2. Expand shorthand into clear, plain text notes in the given tone.\<newline>''
     @ ''    3. The \"expandedNotes\" field must be a single string, but preserve line breaks (`'' @ [CHR 0x5C] @ ''n`) \<newline>''
     @ ''       and allow simple bullet points using a hyphen (`-`).\<newline>''
     @ ''    4. If shorthand or unclear phrases cannot be expanded, keep them as is or mark with [NEEDS CLARIFICATION].\<newline>''
     @ ''    5. If the notes contain \"??\", provide a concise textbook-level explanation and record it under \"explain\".\<newline>''
     @ ''    6. If notes contain multiple asterisks (** or ****), treat as important and record under \"important\".\<newline>''
     @ ''    7. Identify and record tasks, reminders, or actionable items under \"tasks\".\<newline>''
     @ ''    8. Identify and record meeting-related information (schedule, setup, follow-up) under \"meeting\".\<newline>''
     @ ''    9. Output must be valid JSON only, no extra text, no Markdown, no explanations.\<newline>''
     @ ''\<newline>''
     @ ''    JSON Schema (must follow exactly):\<newline>''
     @ ''    {\<newline>''
     @ ''      \"expandedNotes\": \"string (multiline, with '' @ [CHR 0x5C] @ ''n and - for bullets)\",\<newline>''
     @ ''      \"important\": [\"list of important points\"],\<newline>''
     @ ''      \"explain\": [\"list of misunderstood/?? terms with explanation\"],\<newline>''
     @ ''      \"tasks\": [\"list of tasks/reminders\"],\<newline>''
     @ ''      \"meeting\": [\"list of meeting-related info\"]\<newline>''
     @ ''    }\<newline>''
     @ ''\<newline>''
     @ ''    Topic: ''"

text \<open>The f-string of \<^verbatim>\<open>process_notes\<close>, with its three fields.\<close>

definition build_prompt :: "json \<Rightarrow> json \<Rightarrow> json \<Rightarrow> string" where
  "build_prompt topic tone notes =
     prompt_head @ py_str topic
     @ ''\<newline>    Tone: '' @ py_str tone
     @ ''\<newline>    Scribbled Notes:\<newline>    '' @ py_str notes
     @ ''\<newline>    ''"

definition fallback :: "string \<Rightarrow> json" where
  "fallback s =
     JObj [(''expandedNotes'', JStr s), (''important'', JArr []), (''explain'', JArr []),
           (''tasks'', JArr []), (''meeting'', JArr [])]"

definition unavailable_message :: json where
  "unavailable_message =
     JObj [(''error'', JStr ''The AI model is not available. Please try again later.'')]"

definition failed_prompt_path :: "env \<Rightarrow> string" where
  "failed_prompt_path e =
     path_join (FAILED_PROMPTS_DIR e) (''failed_prompt_'' @ strftime (utcnow e) @ ''.txt'')"

text \<open>
  The nested function \<^verbatim>\<open>save_failed_prompt\<close>: the whole body is in a
  \<^verbatim>\<open>try\<close> whose handler prints and returns. \<^verbatim>\<open>open(path, "w")\<close>
  creates the file or empties it before anything is written, so a write that raises
  leaves the file with what had reached it.
\<close>

definition save_failed_prompt :: "env \<Rightarrow> world \<Rightarrow> string \<Rightarrow> world" where
  "save_failed_prompt e w prompt_text =
     (let path = failed_prompt_path e
      in case open_w e path of
           Some save_e \<Rightarrow> print w ''Failed to save prompt:'' save_e
         | None \<Rightarrow>
             (let w1 = w\<lparr>files := (files w)(path \<mapsto> [])\<rparr>
              in case file_write e path prompt_text of
                   Written \<Rightarrow>
                     print (w1\<lparr>files := (files w1)(path \<mapsto> prompt_text)\<rparr>)
                       ''Saved failed prompt to:'' path
                 | WriteRaises save_e n \<Rightarrow>
                     print (w1\<lparr>files := (files w1)(path \<mapsto> take n prompt_text)\<rparr>)
                       ''Failed to save prompt:'' save_e))"

text \<open>The handler of the outer \<^verbatim>\<open>try\<close>, entered with \<^verbatim>\<open>str(e)\<close>.\<close>

definition on_exception :: "env \<Rightarrow> world \<Rightarrow> string \<Rightarrow> string \<Rightarrow> response \<times> world" where
  "on_exception e w prompt err_text =
     (let w1 = print w ''Error generating content:'' err_text;
          lowered = py_lower err_text
      in if py_in ''503'' err_text \<or> py_in ''unavailable'' lowered
            \<or> py_in ''model is overloaded'' lowered
         then (Response 503 unavailable_message, save_failed_prompt e w1 prompt)
         else (Response 500 (JObj [(''error'', JStr err_text)]), w1))"

text \<open>
  \<^verbatim>\<open>json.loads(response.text)\<close> inside its \<^verbatim>\<open>try\<close>: \<open>None\<close> when
  it raises, which it does on every argument that is not a string.
\<close>

definition loads_text :: "env \<Rightarrow> string option \<Rightarrow> json option" where
  "loads_text e text = (case text of None \<Rightarrow> None | Some s \<Rightarrow> json_loads e s)"

text \<open>
  \<^verbatim>\<open>response.text.strip()\<close>: \<^verbatim>\<open>None\<close> has no such method.
\<close>

definition strip_text :: "string option \<Rightarrow> py_exception + string" where
  "strip_text text =
     (case text of
        None \<Rightarrow> Inl (AttributeError ([squote] @ ''NoneType'' @ [squote]
                  @ '' object has no attribute '' @ [squote] @ ''strip'' @ [squote]))
      | Some s \<Rightarrow> Inr (py_strip s))"

text \<open>
  The view. An exception of the three \<^verbatim>\<open>data.get\<close> calls is raised before the
  \<^verbatim>\<open>try\<close> and leaves the view (\<open>Inl\<close>). An exception raised while the
  fallback is built is raised inside the outer \<^verbatim>\<open>try\<close>, whose handler takes it
  as it takes one of the provider call.
\<close>

definition process_notes :: "env \<Rightarrow> world \<Rightarrow> json \<Rightarrow> (py_exception + response) \<times> world" where
  "process_notes e w body =
     (let data = py_or body (JObj [])
      in case py_get data ''topic'' (JStr '''') of
           Inl x \<Rightarrow> (Inl x, w)
         | Inr topic \<Rightarrow>
       (case py_get data ''notes'' (JStr '''') of
           Inl x \<Rightarrow> (Inl x, w)
         | Inr notes \<Rightarrow>
       (case py_get data ''tone'' (JStr ''General'') of
           Inl x \<Rightarrow> (Inl x, w)
         | Inr tone \<Rightarrow>
       (let prompt = build_prompt topic tone notes;
            w0 = w\<lparr>provider_calls := provider_calls w @ [prompt]\<rparr>
        in case generate_content e prompt of
             Returns text \<Rightarrow>
               (case loads_text e text of
                  Some parsed \<Rightarrow> (Inr (Response 200 parsed), w0)
                | None \<Rightarrow>
                    (case strip_text text of
                       Inr stripped \<Rightarrow> (Inr (Response 200 (fallback stripped)), w0)
                     | Inl (AttributeError err_text) \<Rightarrow>
                         (case on_exception e w0 prompt err_text of (r, w') \<Rightarrow> (Inr r, w'))))
           | Raises err_text \<Rightarrow>
               (case on_exception e w0 prompt err_text of (r, w') \<Rightarrow> (Inr r, w'))))))"

section \<open>The view serve_react\<close>

definition serve_react :: "env \<Rightarrow> string \<Rightarrow> response" where
  "serve_react e path =
     (let build_dir = static_folder e
      in if path \<noteq> '''' \<and> path_exists e (path_join build_dir path)
         then SendFromDirectory build_dir path
         else if path_exists e (path_join build_dir ''index.html'')
         then SendFromDirectory build_dir ''index.html''
         else Response 200 (JObj [(''status'', JStr ''Backend running. Frontend build not found.'')]))"

section \<open>The URL map\<close>

text \<open>
  The rules of the application that accept GET, in the order they are registered, which
  is the order in which a request is matched against rules of the same form.
  \<^verbatim>\<open>Flask(__name__, static_url_path="/")\<close> keeps the default static folder and
  so registers the rule \<^verbatim>\<open>/<path:filename>\<close> of the static files first; the
  decorators of \<^verbatim>\<open>serve_react\<close> then register \<^verbatim>\<open>/<path:path>\<close> and
  \<^verbatim>\<open>/\<close> with the default \<^verbatim>\<open>path=""\<close>. The rule of
  \<^verbatim>\<open>process_notes\<close> accepts POST only. A request path is given without its
  leading slash; a \<^verbatim>\<open>path\<close> argument matches what is not empty and does not
  start with a slash.
\<close>

datatype pattern = Exact string string | PathArg

datatype get_view = StaticFile | ServeReact

definition get_rules :: "(pattern \<times> get_view) list" where
  "get_rules = [(PathArg, StaticFile), (PathArg, ServeReact), (Exact '''' '''', ServeReact)]"

fun match_rule :: "pattern \<Rightarrow> string \<Rightarrow> string option" where
  "match_rule (Exact url dflt) p = (if p = url then Some dflt else None)"
| "match_rule PathArg p = (if p \<noteq> [] \<and> hd p \<noteq> CHR ''/'' then Some p else None)"

fun first_match :: "(pattern \<times> get_view) list \<Rightarrow> string \<Rightarrow> (get_view \<times> string) option" where
  "first_match [] p = None"
| "first_match ((pat, v) # rules) p =
     (case match_rule pat p of Some arg \<Rightarrow> Some (v, arg) | None \<Rightarrow> first_match rules p)"

text \<open>
  The view of the static files is \<^verbatim>\<open>send_from_directory(app.static_folder,
  filename)\<close>; a request that matches no rule gets the page of status 404.
\<close>

definition handle_get :: "env \<Rightarrow> string \<Rightarrow> response" where
  "handle_get e p =
     (case first_match get_rules p of
        None \<Rightarrow> Abort 404
      | Some (StaticFile, filename) \<Rightarrow> SendFromDirectory (static_folder e) filename
      | Some (ServeReact, path) \<Rightarrow> serve_react e path)"

section \<open>The shape of a NoteResponse\<close>

definition is_str_list :: "json \<Rightarrow> bool" where
  "is_str_list j = (case j of JArr xs \<Rightarrow> list_all (\<lambda>x. case x of JStr s \<Rightarrow> True | _ \<Rightarrow> False) xs | _ \<Rightarrow> False)"

definition has_str_list :: "(string \<times> json) list \<Rightarrow> string \<Rightarrow> bool" where
  "has_str_list kvs k = (case map_of kvs k of Some v \<Rightarrow> is_str_list v | None \<Rightarrow> False)"

definition note_response_shape :: "json \<Rightarrow> bool" where
  "note_response_shape j =
     (case j of
        JObj kvs \<Rightarrow>
          distinct (map fst kvs)
          \<and> set (map fst kvs) = {''expandedNotes'', ''important'', ''explain'', ''tasks'', ''meeting''}
          \<and> (case map_of kvs ''expandedNotes'' of Some (JStr s) \<Rightarrow> True | _ \<Rightarrow> False)
          \<and> has_str_list kvs ''important'' \<and> has_str_list kvs ''explain''
          \<and> has_str_list kvs ''tasks'' \<and> has_str_list kvs ''meeting''
      | _ \<Rightarrow> False)"

section \<open>Notions the properties are stated with\<close>

text \<open>
  The prompt the view builds from a request dict: the three \<^verbatim>\<open>data.get\<close> calls
  with their defaults, then the f-string.
\<close>

definition prompt_for :: "(string \<times> json) list \<Rightarrow> string" where
  "prompt_for kvs =
     build_prompt (dict_get kvs ''topic'' (JStr '''')) (dict_get kvs ''tone'' (JStr ''General''))
       (dict_get kvs ''notes'' (JStr ''''))"


text \<open>
  A string contains a pattern case-insensitively when one of its substrings equals the
  pattern up to the case of its letters.
\<close>

definition contains_ci :: "string \<Rightarrow> string \<Rightarrow> bool" where
  "contains_ci p s = (\<exists>u. sublist u s \<and> py_lower u = py_lower p)"

text \<open>The classification of the spec: transient provider unavailability.\<close>

definition transient :: "string \<Rightarrow> bool" where
  "transient err =
     (sublist ''503'' err \<or> contains_ci ''unavailable'' err
      \<or> contains_ci ''model is overloaded'' err)"

text \<open>
  A value of \<^verbatim>\<open>datetime.utcnow()\<close>, in the years that every platform prints with
  four digits.
\<close>

definition valid_datetime :: "datetime \<Rightarrow> bool" where
  "valid_datetime d =
     (1000 \<le> year d \<and> year d \<le> 9999 \<and> 1 \<le> month d \<and> month d \<le> 12
      \<and> 1 \<le> day d \<and> day d \<le> 31 \<and> hour d < 24 \<and> minute d < 60 \<and> second d < 60)"

definition is_digit :: "char \<Rightarrow> bool" where
  "is_digit c = (c \<in> set ''0123456789'')"

text \<open>The format YYYYMMDDTHHMMSSZ.\<close>

definition timestamp_format :: "string \<Rightarrow> bool" where
  "timestamp_format s =
     (length s = 16 \<and> list_all is_digit (take 8 s) \<and> s ! 8 = CHR ''T''
      \<and> list_all is_digit (take 6 (drop 9 s)) \<and> s ! 15 = CHR ''Z'')"

text \<open>The number a string of decimal digits denotes.\<close>

definition digit_value :: "char \<Rightarrow> nat" where
  "digit_value c = of_char c - 48"

definition decimal_value :: "string \<Rightarrow> nat" where
  "decimal_value s = foldl (\<lambda>a c. 10 * a + digit_value c) 0 s"

text \<open>
  A timestamp of the format above that carries the fields of a time: the year in its
  first four digits, then month, day, hour, minute and second in two digits each.
\<close>

definition timestamp_of :: "datetime \<Rightarrow> string \<Rightarrow> bool" where
  "timestamp_of d s =
     (timestamp_format s
      \<and> decimal_value (take 4 s) = year d
      \<and> decimal_value (take 2 (drop 4 s)) = month d
      \<and> decimal_value (take 2 (drop 6 s)) = day d
      \<and> decimal_value (take 2 (drop 9 s)) = hour d
      \<and> decimal_value (take 2 (drop 11 s)) = minute d
      \<and> decimal_value (take 2 (drop 13 s)) = second d)"

text \<open>
  The file \<open>failed_prompt_<timestamp>.txt\<close> in the directory \<open>failed_prompts\<close>
  beside the module, the module's directory being \<open>dir\<close> (a relative path when it
  is empty).
\<close>

definition failed_prompt_file :: "string \<Rightarrow> string \<Rightarrow> string" where
  "failed_prompt_file dir ts =
     (if dir = [] then [] else if last dir = CHR ''/'' then dir else dir @ ''/'')
     @ ''failed_prompts/failed_prompt_'' @ ts @ ''.txt''"

subsection \<open>Concrete environments for the examples\<close>

definition demo_clock :: datetime where
  "demo_clock = \<lparr>year = 2025, month = 1, day = 2, hour = 3, minute = 4, second = 5\<rparr>"

text \<open>A provider that answers every prompt the same.\<close>

definition always :: "provider_result \<Rightarrow> string \<Rightarrow> provider_result" where
  "always r prompt = r"



text \<open>A file system on which every write succeeds, and one on which every write raises.\<close>

definition writes_succeed :: "string \<Rightarrow> string \<Rightarrow> write_result" where
  "writes_succeed path s = Written"

definition writes_raise :: "string \<Rightarrow> nat \<Rightarrow> string \<Rightarrow> string \<Rightarrow> write_result" where
  "writes_raise msg n path s = WriteRaises msg n"

definition other_clock :: datetime where
  "other_clock = \<lparr>year = 2031, month = 12, day = 24, hour = 18, minute = 30, second = 59\<rparr>"

text \<open>
  An environment with the given values of \<^verbatim>\<open>json.loads\<close> (a finite table: the
  texts an example uses), the given provider, the given failures of \<^verbatim>\<open>open\<close>
  and the given existing paths; writes to an opened file succeed.
\<close>

definition demo_env ::
  "(string \<rightharpoonup> json) \<Rightarrow> (string \<Rightarrow> provider_result) \<Rightarrow> (string \<rightharpoonup> string) \<Rightarrow> string list \<Rightarrow> env" where
  "demo_env loads provider failures existing =
     \<lparr>json_loads = loads, generate_content = provider, utcnow = demo_clock,
      open_w = failures, file_write = writes_succeed, module_dir = ''/srv/app'',
      static_folder = ''/srv/app/static'', path_exists = (\<lambda>p. p \<in> set existing)\<rparr>"

definition empty_world :: world where
  "empty_world = \<lparr>files = Map.empty, stdout = [], provider_calls = []\<rparr>"

text \<open>A provider text that follows the schema of the prompt, and its parsed value.\<close>

definition good_text :: string where
  "good_text =
     ''{\"expandedNotes\": \"Meeting with Bob.\", \"important\": [], \"explain\": [], \"tasks\": [\"Call Bob\"], \"meeting\": []}''"

definition good_json :: json where
  "good_json =
     JObj [(''expandedNotes'', JStr ''Meeting with Bob.''), (''important'', JArr []),
           (''explain'', JArr []), (''tasks'', JArr [JStr ''Call Bob'']), (''meeting'', JArr [])]"

definition demo_request :: json where
  "demo_request = JObj [(''notes'', JStr ''mtg w/ Bob'')]"

section \<open>Lemmas on the builtins\<close>

lemma py_in_sublist: "py_in p s = sublist p s"
  by (induction s) (auto simp: sublist_Cons_right)

lemma sublist_map_iff: "sublist p (map f s) = (\<exists>u. sublist u s \<and> map f u = p)"
proof
  assume "sublist p (map f s)"
  then obtain a b where "map f s = a @ (p @ b)"
    by (auto simp: sublist_def)
  then obtain a' r where r: "s = a' @ r" "p @ b = map f r"
    unfolding map_eq_append_conv by blast
  from r(2) obtain u b' where u: "r = u @ b'" "p = map f u"
    unfolding append_eq_map_conv by blast
  have "sublist u s"
    unfolding sublist_def using r(1) u(1) by blast
  with u(2) show "\<exists>u. sublist u s \<and> map f u = p"
    by blast
next
  assume "\<exists>u. sublist u s \<and> map f u = p"
  then obtain u a b where "s = a @ u @ b" "map f u = p"
    by (auto simp: sublist_def)
  then have "map f s = map f a @ p @ map f b"
    by simp
  then show "sublist p (map f s)"
    unfolding sublist_def by blast
qed

lemma contains_ci_lower: "py_lower p = p \<Longrightarrow> contains_ci p s = py_in p (py_lower s)"
  by (simp add: contains_ci_def py_in_sublist py_lower_def sublist_map_iff)

lemma lower_unavailable: "py_lower ''unavailable'' = ''unavailable''"
  by (simp add: py_lower_def lower_char_def)

lemma lower_overloaded: "py_lower ''model is overloaded'' = ''model is overloaded''"
  by (simp add: py_lower_def lower_char_def)

lemma transient_code:
  "transient err =
     (py_in ''503'' err \<or> py_in ''unavailable'' (py_lower err)
      \<or> py_in ''model is overloaded'' (py_lower err))"
  by (simp only: transient_def py_in_sublist [symmetric]
        contains_ci_lower [OF lower_unavailable] contains_ci_lower [OF lower_overloaded])

lemma py_strip_suffix:
  "dropWhile isspace s = py_strip s @ rev (takeWhile isspace (rev (dropWhile isspace s)))"
proof -
  let ?r = "dropWhile isspace s"
  have "rev (dropWhile isspace (rev ?r)) @ rev (takeWhile isspace (rev ?r))
      = rev (takeWhile isspace (rev ?r) @ dropWhile isspace (rev ?r))"
    by (simp only: rev_append)
  also have "\<dots> = ?r"
    by simp
  finally show ?thesis
    by (simp only: py_strip_def)
qed

lemma py_strip_decomposition:
  "\<exists>a b. s = a @ py_strip s @ b \<and> list_all isspace a \<and> list_all isspace b"
proof -
  let ?a = "takeWhile isspace s"
  let ?b = "rev (takeWhile isspace (rev (dropWhile isspace s)))"
  have "s = ?a @ dropWhile isspace s"
    by simp
  then have "s = ?a @ py_strip s @ ?b"
    using py_strip_suffix [of s] by simp
  moreover have "list_all isspace ?a"
    by (simp add: list_all_iff) (meson set_takeWhileD)
  moreover have "list_all isspace ?b"
    by (simp add: list_all_iff) (meson set_takeWhileD)
  ultimately show ?thesis
    by blast
qed

lemma py_strip_ends:
  assumes "py_strip s \<noteq> []"
  shows "\<not> isspace (hd (py_strip s)) \<and> \<not> isspace (last (py_strip s))"
proof -
  let ?r = "dropWhile isspace s"
  let ?t = "dropWhile isspace (rev ?r)"
  from assms have t: "?t \<noteq> []"
    by (simp add: py_strip_def)
  then have "\<not> isspace (hd ?t)"
    by (rule hd_dropWhile)
  then have lst: "\<not> isspace (last (py_strip s))"
    using t by (simp add: py_strip_def last_rev)
  have r: "?r \<noteq> []"
  proof
    assume "?r = []"
    then have "?t = []"
      by (simp only: rev.simps dropWhile.simps)
    with t show False
      by simp
  qed
  then have h: "\<not> isspace (hd ?r)"
    by (rule hd_dropWhile)
  have "hd ?r = hd (py_strip s @ rev (takeWhile isspace (rev ?r)))"
    using py_strip_suffix [of s] by (rule arg_cong)
  with assms have "hd ?r = hd (py_strip s)"
    by simp
  with h lst show ?thesis
    by simp
qed

lemma digit_cases: "d < 10 \<Longrightarrow> d = 0 \<or> d = 1 \<or> d = 2 \<or> d = 3 \<or> d = 4 \<or> d = 5 \<or> d = 6 \<or> d = 7 \<or> d = 8 \<or> d = (9::nat)"
  by arith

lemma digit_char_is_digit: "d < 10 \<Longrightarrow> is_digit (digit_char d)"
  using digit_cases [of d] by (auto simp: is_digit_def digit_char_def)

lemma str_nat_digits: "list_all is_digit (str_nat n)"
proof (induction n rule: str_nat.induct)
  case (1 n)
  show ?case
  proof (cases "n < 10")
    case True
    then show ?thesis
      by (subst str_nat.simps) (simp add: digit_char_is_digit)
  next
    case False
    with "1" show ?thesis
      by (subst str_nat.simps) (simp add: digit_char_is_digit)
  qed
qed


lemma str_nat_length: "0 < k \<Longrightarrow> n < 10 ^ k \<Longrightarrow> length (str_nat n) \<le> k"
proof (induction k arbitrary: n)
  case 0
  then show ?case by simp
next
  case (Suc k)
  show ?case
  proof (cases "n < 10")
    case True
    then have "str_nat n = [digit_char n]"
      by (subst str_nat.simps) simp
    then show ?thesis
      by simp
  next
    case False
    have k: "0 < k"
    proof (cases k)
      case 0
      with Suc.prems False show ?thesis by simp
    next
      case (Suc m)
      then show ?thesis by simp
    qed
    from Suc.prems have "n < 10 ^ k * 10"
      by simp
    then have "n div 10 < 10 ^ k"
      by (rule less_mult_imp_div_less)
    with k Suc.IH have "length (str_nat (n div 10)) \<le> k"
      by blast
    moreover from False have "str_nat n = str_nat (n div 10) @ [digit_char (n mod 10)]"
      by (subst str_nat.simps) simp
    ultimately show ?thesis
      by simp
  qed
qed


lemma zfill_length: "length s \<le> k \<Longrightarrow> length (zfill k s) = k"
  by (simp add: zfill_def)

lemma is_digit_zero: "is_digit CHR ''0''"
  by (simp add: is_digit_def)

lemma zfill_digits: "list_all is_digit s \<Longrightarrow> list_all is_digit (zfill k s)"
  by (auto simp: zfill_def list_all_iff is_digit_zero)

lemma pad_field:
  assumes "0 < k" and "n < 10 ^ k"
  shows "length (zfill k (str_nat n)) = k \<and> list_all is_digit (zfill k (str_nat n))"
proof
  from assms have "length (str_nat n) \<le> k"
    by (rule str_nat_length)
  then show "length (zfill k (str_nat n)) = k"
    by (rule zfill_length)
  show "list_all is_digit (zfill k (str_nat n))"
    using str_nat_digits by (rule zfill_digits)
qed


lemma timestamp_shape:
  assumes "length y = 4 \<and> list_all is_digit y" and "length mo = 2 \<and> list_all is_digit mo"
    and "length d = 2 \<and> list_all is_digit d" and "length h = 2 \<and> list_all is_digit h"
    and "length mi = 2 \<and> list_all is_digit mi" and "length se = 2 \<and> list_all is_digit se"
  shows "timestamp_format (y @ mo @ d @ ''T'' @ h @ mi @ se @ ''Z'')"
  using assms by (simp add: timestamp_format_def nth_append)

lemma strftime_format: "valid_datetime d \<Longrightarrow> timestamp_format (strftime d)"
  unfolding strftime_def valid_datetime_def
  by (intro timestamp_shape pad_field) simp_all

lemma digit_value_digit_char: "d < 10 \<Longrightarrow> digit_value (digit_char d) = d"
  using digit_cases [of d] by (auto simp: digit_value_def digit_char_def)

lemma decimal_value_snoc: "decimal_value (s @ [c]) = 10 * decimal_value s + digit_value c"
  by (simp add: decimal_value_def)

lemma decimal_value_str_nat: "decimal_value (str_nat n) = n"
proof (induction n rule: str_nat.induct)
  case (1 n)
  show ?case
  proof (cases "n < 10")
    case True
    then have "str_nat n = [digit_char n]"
      by (subst str_nat.simps) simp
    with True show ?thesis
      by (simp add: decimal_value_def digit_value_digit_char)
  next
    case False
    then have "str_nat n = str_nat (n div 10) @ [digit_char (n mod 10)]"
      by (subst str_nat.simps) simp
    moreover from False "1" have "decimal_value (str_nat (n div 10)) = n div 10"
      by simp
    ultimately show ?thesis
      by (simp add: decimal_value_snoc digit_value_digit_char)
  qed
qed

lemma decimal_value_zeros: "decimal_value (replicate m CHR ''0'' @ s) = decimal_value s"
  by (induction m) (simp_all add: decimal_value_def digit_value_def)

lemma decimal_value_zfill: "decimal_value (zfill k (str_nat n)) = n"
  by (simp add: zfill_def decimal_value_zeros decimal_value_str_nat)

lemma timestamp_parts:
  assumes "length y = 4" and "length mo = 2" and "length d = 2" and "length h = 2"
    and "length mi = 2" and "length se = 2"
  shows "take 4 (y @ mo @ d @ ''T'' @ h @ mi @ se @ ''Z'') = y"
    and "take 2 (drop 4 (y @ mo @ d @ ''T'' @ h @ mi @ se @ ''Z'')) = mo"
    and "take 2 (drop 6 (y @ mo @ d @ ''T'' @ h @ mi @ se @ ''Z'')) = d"
    and "take 2 (drop 9 (y @ mo @ d @ ''T'' @ h @ mi @ se @ ''Z'')) = h"
    and "take 2 (drop 11 (y @ mo @ d @ ''T'' @ h @ mi @ se @ ''Z'')) = mi"
    and "take 2 (drop 13 (y @ mo @ d @ ''T'' @ h @ mi @ se @ ''Z'')) = se"
  using assms by simp_all

lemma strftime_fields: "valid_datetime d \<Longrightarrow> timestamp_of d (strftime d)"
proof -
  assume v: "valid_datetime d"
  let ?y = "zfill 4 (str_nat (year d))" and ?mo = "zfill 2 (str_nat (month d))"
  let ?d = "zfill 2 (str_nat (day d))" and ?h = "zfill 2 (str_nat (hour d))"
  let ?mi = "zfill 2 (str_nat (minute d))" and ?se = "zfill 2 (str_nat (second d))"
  from v have ly: "length ?y = 4"
    by (intro conjunct1 [OF pad_field]) (simp_all add: valid_datetime_def)
  from v have lmo: "length ?mo = 2"
    by (intro conjunct1 [OF pad_field]) (simp_all add: valid_datetime_def)
  from v have ld: "length ?d = 2"
    by (intro conjunct1 [OF pad_field]) (simp_all add: valid_datetime_def)
  from v have lh: "length ?h = 2"
    by (intro conjunct1 [OF pad_field]) (simp_all add: valid_datetime_def)
  from v have lmi: "length ?mi = 2"
    by (intro conjunct1 [OF pad_field]) (simp_all add: valid_datetime_def)
  from v have lse: "length ?se = 2"
    by (intro conjunct1 [OF pad_field]) (simp_all add: valid_datetime_def)
  note parts = timestamp_parts [OF ly lmo ld lh lmi lse]
  from v have "timestamp_format (strftime d)"
    by (rule strftime_format)
  then show ?thesis
    unfolding timestamp_of_def strftime_def
    by (simp only: parts decimal_value_zfill simp_thms)
qed

lemma fallback_shape: "note_response_shape (fallback s)"
  by (auto simp: note_response_shape_def fallback_def has_str_list_def is_str_list_def)

section \<open>Lemmas on process_notes\<close>

lemma print_files: "files (print w a b) = files w"
  by (simp add: print_def)

lemma print_calls: "provider_calls (print w a b) = provider_calls w"
  by (simp add: print_def)

lemma failed_prompt_path_explicit:
  "failed_prompt_path e = failed_prompt_file (module_dir e) (strftime (utcnow e))"
  by (simp add: failed_prompt_path_def FAILED_PROMPTS_DIR_def path_join_def failed_prompt_file_def)

lemma save_failed_prompt_files:
  "files (save_failed_prompt e w p) =
     (case open_w e (failed_prompt_path e) of
        Some x \<Rightarrow> files w
      | None \<Rightarrow>
          (files w)(failed_prompt_path e \<mapsto>
             (case file_write e (failed_prompt_path e) p of
                Written \<Rightarrow> p
              | WriteRaises m n \<Rightarrow> take n p)))"
  by (simp add: save_failed_prompt_def Let_def print_files
        split: option.splits write_result.splits)

lemma save_failed_prompt_calls: "provider_calls (save_failed_prompt e w p) = provider_calls w"
  by (simp add: save_failed_prompt_def Let_def print_calls
        split: option.splits write_result.splits)

lemma on_exception_response:
  "fst (on_exception e w p err) =
     (if transient err then Response 503 unavailable_message
      else Response 500 (JObj [(''error'', JStr err)]))"
  by (simp add: on_exception_def Let_def transient_code)

lemma on_exception_files:
  "files (snd (on_exception e w p err)) =
     (if transient err then files (save_failed_prompt e w p) else files w)"
  by (simp add: on_exception_def Let_def transient_code save_failed_prompt_files print_files
        split: option.splits write_result.splits)

lemma on_exception_calls: "provider_calls (snd (on_exception e w p err)) = provider_calls w"
  by (simp add: on_exception_def Let_def save_failed_prompt_calls print_calls)

lemma process_notes_dict:
  assumes "py_or body (JObj []) = JObj kvs"
  shows "process_notes e w body =
     (case generate_content e (prompt_for kvs) of
        Returns text \<Rightarrow>
          (case loads_text e text of
             Some parsed \<Rightarrow>
               (Inr (Response 200 parsed), w\<lparr>provider_calls := provider_calls w @ [prompt_for kvs]\<rparr>)
           | None \<Rightarrow>
               (case strip_text text of
                  Inr stripped \<Rightarrow>
                    (Inr (Response 200 (fallback stripped)),
                     w\<lparr>provider_calls := provider_calls w @ [prompt_for kvs]\<rparr>)
                | Inl (AttributeError err_text) \<Rightarrow>
                    (Inr (fst (on_exception e
                            (w\<lparr>provider_calls := provider_calls w @ [prompt_for kvs]\<rparr>)
                            (prompt_for kvs) err_text)),
                     snd (on_exception e
                            (w\<lparr>provider_calls := provider_calls w @ [prompt_for kvs]\<rparr>)
                            (prompt_for kvs) err_text))))
      | Raises err_text \<Rightarrow>
          (Inr (fst (on_exception e (w\<lparr>provider_calls := provider_calls w @ [prompt_for kvs]\<rparr>)
                  (prompt_for kvs) err_text)),
           snd (on_exception e (w\<lparr>provider_calls := provider_calls w @ [prompt_for kvs]\<rparr>)
                  (prompt_for kvs) err_text)))"
  using assms
  by (simp add: process_notes_def py_get_def prompt_for_def Let_def
        split: provider_result.splits prod.splits option.splits sum.splits py_exception.splits)

text \<open>
  A body that is truthy and not a dict has no \<^verbatim>\<open>get\<close>: the first call raises
  before the provider is called, and the exception leaves the view.
\<close>

lemma process_notes_not_dict:
  assumes "truthy body" and "\<forall>kvs. body \<noteq> JObj kvs"
  shows "\<exists>msg. process_notes e w body = (Inl (AttributeError msg), w)"
  using assms by (cases body) (simp_all add: process_notes_def py_or_def py_get_def)

lemma process_notes_list_body:
  "process_notes e w (JArr [JInt 1]) =
     (Inl (AttributeError ([squote] @ ''list'' @ [squote] @ '' object has no attribute ''
             @ [squote] @ ''get'' @ [squote])), w)"
  by (simp add: process_notes_def py_or_def py_get_def)

lemma process_notes_success:
  assumes "py_or body (JObj []) = JObj kvs"
    and "generate_content e (prompt_for kvs) = Returns (Some reply)"
  shows "process_notes e w body =
     (Inr (Response 200
        (case json_loads e reply of Some parsed \<Rightarrow> parsed | None \<Rightarrow> fallback (py_strip reply))),
      w\<lparr>provider_calls := provider_calls w @ [prompt_for kvs]\<rparr>)"
  by (simp add: process_notes_dict [OF assms(1)] assms(2) loads_text_def strip_text_def
        split: option.splits)

lemma process_notes_raises:
  assumes "py_or body (JObj []) = JObj kvs"
    and "generate_content e (prompt_for kvs) = Raises err"
  shows "fst (process_notes e w body) =
     Inr (if transient err then Response 503 unavailable_message
          else Response 500 (JObj [(''error'', JStr err)]))"
    and "files (snd (process_notes e w body)) =
     (if transient err
      then (case open_w e (failed_prompt_path e) of
              Some x \<Rightarrow> files w
            | None \<Rightarrow>
                (files w)(failed_prompt_path e \<mapsto>
                   (case file_write e (failed_prompt_path e) (prompt_for kvs) of
                      Written \<Rightarrow> prompt_for kvs
                    | WriteRaises m n \<Rightarrow> take n (prompt_for kvs))))
      else files w)"
    and "provider_calls (snd (process_notes e w body)) = provider_calls w @ [prompt_for kvs]"
  by (simp_all add: process_notes_dict [OF assms(1)] assms(2) on_exception_response
        on_exception_files on_exception_calls save_failed_prompt_files split: option.splits)

text \<open>
  A response whose text is \<^verbatim>\<open>None\<close>: \<^verbatim>\<open>json.loads\<close> raises, the
  fallback raises on \<^verbatim>\<open>.strip()\<close>, and the outer handler answers as for any
  exception that is not transient.
\<close>

lemma none_strip_not_transient:
  "\<not> transient ([squote] @ ''NoneType'' @ [squote] @ '' object has no attribute ''
       @ [squote] @ ''strip'' @ [squote])"
  unfolding transient_code by code_simp

lemma process_notes_none_text:
  assumes "py_or body (JObj []) = JObj kvs"
    and "generate_content e (prompt_for kvs) = Returns None"
  shows "fst (process_notes e w body) =
     Inr (Response 500
       (JObj [(''error'', JStr ([squote] @ ''NoneType'' @ [squote] @ '' object has no attribute ''
                 @ [squote] @ ''strip'' @ [squote]))]))"
    and "provider_calls (snd (process_notes e w body)) = provider_calls w @ [prompt_for kvs]"
  using none_strip_not_transient
  by (simp_all add: process_notes_dict [OF assms(1)] assms(2) loads_text_def strip_text_def
        on_exception_response on_exception_calls)

section \<open>Properties of process_notes\<close>

lemma demo_env_simps:
  "json_loads (demo_env l p f x) = l"
  "generate_content (demo_env l p f x) = p"
  "utcnow (demo_env l p f x) = demo_clock"
  "open_w (demo_env l p f x) = f"
  "file_write (demo_env l p f x) = writes_succeed"
  "module_dir (demo_env l p f x) = ''/srv/app''"
  "static_folder (demo_env l p f x) = ''/srv/app/static''"
  "path_exists (demo_env l p f x) q = (q \<in> set x)"
  by (simp_all add: demo_env_def)

lemma demo_request_data: "py_or demo_request (JObj []) = JObj [(''notes'', JStr ''mtg w/ Bob'')]"
  by (simp add: py_or_def demo_request_def)

lemma good_json_shape: "note_response_shape good_json"
  by (simp add: note_response_shape_def good_json_def has_str_list_def is_str_list_def)

text \<open>
  Claim C6. Whenever the text the provider returns parses as JSON of the NoteResponse
  shape, the view answers HTTP 200 and the body is the parsed value itself.
\<close>

theorem valid_json_passes_verbatim:
  assumes "py_or body (JObj []) = JObj kvs"
    and "generate_content e (prompt_for kvs) = Returns (Some reply)"
    and "json_loads e reply = Some j"
    and "note_response_shape j"
  shows "fst (process_notes e w body) = Inr (Response 200 j)"
  by (simp add: process_notes_success [OF assms(1) assms(2)] assms(3))

theorem valid_json_passes_verbatim_witness:
  "note_response_shape good_json
   \<and> fst (process_notes (demo_env [good_text \<mapsto> good_json] (always (Returns (Some good_text))) Map.empty [])
        empty_world demo_request) = Inr (Response 200 good_json)"
proof -
  let ?e = "demo_env [good_text \<mapsto> good_json] (always (Returns (Some good_text))) Map.empty []"
  have h2: "generate_content ?e (prompt_for [(''notes'', JStr ''mtg w/ Bob'')]) = Returns (Some good_text)"
    by (simp add: demo_env_simps always_def)
  have h3: "json_loads ?e good_text = Some good_json"
    by (simp add: demo_env_simps)
  show ?thesis
    using valid_json_passes_verbatim [OF demo_request_data h2 h3 good_json_shape, of empty_world]
      good_json_shape
    by simp
qed

text \<open>
  A text that is a string and does not parse as JSON is answered with HTTP 200 and the
  object whose expandedNotes is the text stripped of its leading and trailing whitespace
  and whose four lists are empty.
\<close>

lemma non_json_text_is_wrapped:
  assumes "py_or body (JObj []) = JObj kvs"
    and "generate_content e (prompt_for kvs) = Returns (Some reply)"
    and "json_loads e reply = None"
  shows "fst (process_notes e w body) =
       Inr (Response 200
         (JObj [(''expandedNotes'', JStr (py_strip reply)), (''important'', JArr []),
                (''explain'', JArr []), (''tasks'', JArr []), (''meeting'', JArr [])]))
     \<and> (\<exists>a b. reply = a @ py_strip reply @ b \<and> list_all isspace a \<and> list_all isspace b)
     \<and> (py_strip reply = [] \<or>
         (\<not> isspace (hd (py_strip reply)) \<and> \<not> isspace (last (py_strip reply))))"
proof -
  have "fst (process_notes e w body) = Inr (Response 200 (fallback (py_strip reply)))"
    by (simp add: process_notes_success [OF assms(1) assms(2)] assms(3))
  then show ?thesis
    using py_strip_decomposition [of reply] py_strip_ends [of reply]
    by (auto simp: fallback_def)
qed

lemma non_json_text_is_wrapped_example:
  "fst (process_notes
          (demo_env Map.empty
             (always (Returns (Some '' Sure, here are your notes expanded.\<newline>''))) Map.empty [])
          empty_world demo_request) =
     Inr (Response 200
       (JObj [(''expandedNotes'', JStr ''Sure, here are your notes expanded.''),
              (''important'', JArr []), (''explain'', JArr []), (''tasks'', JArr []),
              (''meeting'', JArr [])]))"
proof -
  let ?t = "'' Sure, here are your notes expanded.\<newline>''"
  let ?e = "demo_env Map.empty (always (Returns (Some ?t))) Map.empty []"
  have h2: "generate_content ?e (prompt_for [(''notes'', JStr ''mtg w/ Bob'')]) = Returns (Some ?t)"
    by (simp add: demo_env_simps always_def)
  have h3: "json_loads ?e ?t = None"
    by (simp add: demo_env_simps)
  have st: "py_strip ?t = ''Sure, here are your notes expanded.''"
    by (simp add: py_strip_def isspace_def)
  show ?thesis
    using non_json_text_is_wrapped [OF demo_request_data h2 h3, of empty_world]
    by (simp only: st)
qed

text \<open>
  Claim C3 says that a provider result that does not parse as JSON is answered with
  HTTP 200 and the wrapper, and never with an error response. The view does so for every
  text that is a string (above), and not for a response whose text is None: there
  \<^verbatim>\<open>json.loads\<close> raises, the fallback raises in its turn on
  \<^verbatim>\<open>response.text.strip()\<close>, and the answer is HTTP 500 with the message of
  that exception.
\<close>

theorem none_text_is_answered_500:
  "fst (process_notes (demo_env Map.empty (always (Returns None)) Map.empty [])
          empty_world demo_request)
     = Inr (Response 500
         (JObj [(''error'',
            JStr ([CHR 0x27] @ ''NoneType'' @ [CHR 0x27] @ '' object has no attribute ''
                  @ [CHR 0x27] @ ''strip'' @ [CHR 0x27]))]))"
proof -
  let ?e = "demo_env Map.empty (always (Returns None)) Map.empty []"
  have h2: "generate_content ?e (prompt_for [(''notes'', JStr ''mtg w/ Bob'')]) = Returns None"
    by (simp add: demo_env_simps always_def)
  show ?thesis
    using process_notes_none_text(1) [OF demo_request_data h2, of empty_world]
    by (simp add: squote_def)
qed

text \<open>
  Claim C8. Whenever the text the provider returns parses as JSON that does not have the
  NoteResponse shape, the view answers HTTP 200 with the parsed value as the whole body,
  and not with the expandedNotes wrapper.
\<close>

theorem wrong_shape_json_passes_through:
  assumes "py_or body (JObj []) = JObj kvs"
    and "generate_content e (prompt_for kvs) = Returns (Some reply)"
    and "json_loads e reply = Some j"
    and "\<not> note_response_shape j"
  shows "fst (process_notes e w body) = Inr (Response 200 j)
     \<and> fst (process_notes e w body) \<noteq> Inr (Response 200 (fallback (py_strip reply)))"
proof -
  have r: "fst (process_notes e w body) = Inr (Response 200 j)"
    by (simp add: process_notes_success [OF assms(1) assms(2)] assms(3))
  have "j \<noteq> fallback (py_strip reply)"
    using assms(4) fallback_shape [of "py_strip reply"] by auto
  with r show ?thesis
    by simp
qed

theorem wrong_shape_json_passes_through_witness:
  "\<not> note_response_shape (JArr [JInt 1, JInt 2])
   \<and> fst (process_notes
        (demo_env [''[1, 2]'' \<mapsto> JArr [JInt 1, JInt 2]] (always (Returns (Some ''[1, 2]''))) Map.empty [])
        empty_world demo_request) = Inr (Response 200 (JArr [JInt 1, JInt 2]))"
proof -
  let ?e = "demo_env [''[1, 2]'' \<mapsto> JArr [JInt 1, JInt 2]] (always (Returns (Some ''[1, 2]''))) Map.empty []"
  have h2: "generate_content ?e (prompt_for [(''notes'', JStr ''mtg w/ Bob'')]) = Returns (Some ''[1, 2]'')"
    by (simp add: demo_env_simps always_def)
  have h3: "json_loads ?e ''[1, 2]'' = Some (JArr [JInt 1, JInt 2])"
    by (simp add: demo_env_simps)
  have h4: "\<not> note_response_shape (JArr [JInt 1, JInt 2])"
    by (simp add: note_response_shape_def)
  show ?thesis
    using wrong_shape_json_passes_through [OF demo_request_data h2 h3 h4, of empty_world] h4
    by simp
qed

text \<open>
  Claim C1, as the spec states it: every success of the provider call gives HTTP 200 with a
  body of the NoteResponse shape. It fails where the provider returns valid JSON of
  another shape: the object \<^verbatim>\<open>{"summary": "ok"}\<close> is returned as it is.
\<close>

theorem success_shape_counterexample:
  "fst (process_notes
          (demo_env [''{\"summary\": \"ok\"}'' \<mapsto> JObj [(''summary'', JStr ''ok'')]]
             (always (Returns (Some ''{\"summary\": \"ok\"}''))) Map.empty [])
          empty_world demo_request) = Inr (Response 200 (JObj [(''summary'', JStr ''ok'')]))
   \<and> \<not> note_response_shape (JObj [(''summary'', JStr ''ok'')])"
proof -
  let ?t = "''{\"summary\": \"ok\"}''"
  let ?e = "demo_env [?t \<mapsto> JObj [(''summary'', JStr ''ok'')]] (always (Returns (Some ?t))) Map.empty []"
  have h2: "generate_content ?e (prompt_for [(''notes'', JStr ''mtg w/ Bob'')]) = Returns (Some ?t)"
    by (simp add: demo_env_simps always_def)
  have "fst (process_notes ?e empty_world demo_request) =
      Inr (Response 200 (JObj [(''summary'', JStr ''ok'')]))"
    by (simp add: process_notes_success [OF demo_request_data h2] demo_env_simps)
  moreover have "\<not> note_response_shape (JObj [(''summary'', JStr ''ok'')])"
    by (simp add: note_response_shape_def)
  ultimately show ?thesis
    by simp
qed

text \<open>
  Claim C1, amended. Every success of the provider call gives HTTP 200 with a JSON body:
  the parsed value of the text as it is when the text parses, whatever its shape, and
  otherwise the wrapper, which has the NoteResponse shape.
\<close>

theorem success_returns_200:
  assumes "py_or body (JObj []) = JObj kvs"
    and "generate_content e (prompt_for kvs) = Returns (Some reply)"
  shows "fst (process_notes e w body) =
       Inr (Response 200
         (case json_loads e reply of Some parsed \<Rightarrow> parsed | None \<Rightarrow> fallback (py_strip reply)))
     \<and> note_response_shape (fallback (py_strip reply))"
  by (simp add: process_notes_success [OF assms] fallback_shape)

theorem success_returns_200_witness:
  "fst (process_notes (demo_env Map.empty (always (Returns (Some ''not json''))) Map.empty [])
          empty_world (JObj [])) = Inr (Response 200 (fallback ''not json''))
   \<and> note_response_shape (fallback ''not json'')"
proof -
  let ?e = "demo_env Map.empty (always (Returns (Some ''not json''))) Map.empty []"
  have h1: "py_or (JObj []) (JObj []) = JObj []"
    by (simp add: py_or_def)
  have h2: "generate_content ?e (prompt_for []) = Returns (Some ''not json'')"
    by (simp add: demo_env_simps always_def)
  have st: "py_strip ''not json'' = ''not json''"
    by (simp add: py_strip_def isspace_def)
  show ?thesis
    using success_returns_200 [OF h1 h2, of empty_world]
    by (simp add: demo_env_simps st)
qed

text \<open>
  Claim C10. On the success path the response depends on the text the provider returned
  and on nothing else of the request: two requests whose provider calls return the same
  text get the same HTTP 200 response.
\<close>

theorem response_depends_on_text_only:
  assumes "py_or body1 (JObj []) = JObj kvs1"
    and "py_or body2 (JObj []) = JObj kvs2"
    and "generate_content e1 (prompt_for kvs1) = Returns (Some reply)"
    and "generate_content e2 (prompt_for kvs2) = Returns (Some reply)"
    and "json_loads e1 = json_loads e2"
  shows "fst (process_notes e1 w1 body1) = fst (process_notes e2 w2 body2)
     \<and> (\<exists>j. fst (process_notes e1 w1 body1) = Inr (Response 200 j))"
  by (simp add: process_notes_success [OF assms(1) assms(3)]
        process_notes_success [OF assms(2) assms(4)] assms(5))

theorem response_depends_on_text_only_witness:
  "fst (process_notes (demo_env [good_text \<mapsto> good_json] (always (Returns (Some good_text))) Map.empty [])
          empty_world demo_request)
   = fst (process_notes (demo_env [good_text \<mapsto> good_json] (always (Returns (Some good_text))) Map.empty [])
          empty_world (JObj [(''topic'', JStr ''Physics''), (''tone'', JStr ''Class Lecture'')]))"
proof -
  let ?e = "demo_env [good_text \<mapsto> good_json] (always (Returns (Some good_text))) Map.empty []"
  let ?kvs = "[(''topic'', JStr ''Physics''), (''tone'', JStr ''Class Lecture'')]"
  have h1: "py_or (JObj ?kvs) (JObj []) = JObj ?kvs"
    by (simp add: py_or_def)
  have h2: "generate_content ?e (prompt_for [(''notes'', JStr ''mtg w/ Bob'')]) = Returns (Some good_text)"
    by (simp add: demo_env_simps always_def)
  have h3: "generate_content ?e (prompt_for ?kvs) = Returns (Some good_text)"
    by (simp add: demo_env_simps always_def)
  show ?thesis
    using response_depends_on_text_only [OF demo_request_data h1 h2 h3 refl,
        of empty_world empty_world]
    by simp
qed

section \<open>Properties of the error path\<close>

lemma demo_strftime:
  "strftime demo_clock = ''20250102T030405Z''"
  "strftime other_clock = ''20311224T183059Z''"
  by (simp_all add: strftime_def demo_clock_def other_clock_def zfill_def str_nat.simps
        digit_char_def)

lemma demo_failed_prompt_file:
  "failed_prompt_file ''/srv/app'' ts = ''/srv/app/failed_prompts/failed_prompt_'' @ ts @ ''.txt''"
  by (simp add: failed_prompt_file_def)

lemma demo_clock_valid: "valid_datetime demo_clock"
  by (simp add: valid_datetime_def demo_clock_def)

lemma other_clock_valid: "valid_datetime other_clock"
  by (simp add: valid_datetime_def other_clock_def)

lemma invalid_api_key_not_transient: "\<not> transient ''invalid api key''"
  unfolding transient_code by code_simp

lemma overloaded_transient: "transient ''The Model is OVERLOADED. Please try again later.''"
  unfolding transient_code by code_simp

lemma unavailable_transient: "transient ''503 Service Unavailable''"
  unfolding transient_code by code_simp

text \<open>
  Claim C2. An exception of the provider call is transient exactly when its string
  contains 503, or contains unavailable or model is overloaded in any letter case. A
  transient one is answered with HTTP 503 and the fixed message; any other with HTTP 500
  and the string of the exception as the error field, and then no file is written.
\<close>

theorem provider_error_is_classified:
  assumes "py_or body (JObj []) = JObj kvs"
    and "generate_content e (prompt_for kvs) = Raises err"
  shows "fst (process_notes e w body) =
       Inr (if sublist ''503'' err \<or> contains_ci ''unavailable'' err
               \<or> contains_ci ''model is overloaded'' err
            then Response 503
              (JObj [(''error'', JStr ''The AI model is not available. Please try again later.'')])
            else Response 500 (JObj [(''error'', JStr err)]))
     \<and> (\<not> transient err \<longrightarrow> files (snd (process_notes e w body)) = files w)"
proof
  show "fst (process_notes e w body) =
       Inr (if sublist ''503'' err \<or> contains_ci ''unavailable'' err
               \<or> contains_ci ''model is overloaded'' err
            then Response 503
              (JObj [(''error'', JStr ''The AI model is not available. Please try again later.'')])
            else Response 500 (JObj [(''error'', JStr err)]))"
    using process_notes_raises(1) [OF assms, of w]
    by (simp add: transient_def unavailable_message_def)
  show "\<not> transient err \<longrightarrow> files (snd (process_notes e w body)) = files w"
    using process_notes_raises(2) [OF assms, of w] by simp
qed

theorem provider_error_is_classified_witness:
  "fst (process_notes (demo_env Map.empty (always (Raises ''invalid api key'')) Map.empty [])
          empty_world demo_request)
     = Inr (Response 500 (JObj [(''error'', JStr ''invalid api key'')]))
   \<and> files (snd (process_notes
        (demo_env Map.empty (always (Raises ''invalid api key'')) Map.empty [])
        empty_world demo_request)) = Map.empty
   \<and> fst (process_notes
        (demo_env Map.empty (always (Raises ''The Model is OVERLOADED. Please try again later.''))
           Map.empty [])
        empty_world demo_request)
     = Inr (Response 503
         (JObj [(''error'', JStr ''The AI model is not available. Please try again later.'')]))"
proof -
  let ?k = "''invalid api key''"
  let ?o = "''The Model is OVERLOADED. Please try again later.''"
  let ?e1 = "demo_env Map.empty (always (Raises ?k)) Map.empty []"
  let ?e2 = "demo_env Map.empty (always (Raises ?o)) Map.empty []"
  have h1: "generate_content ?e1 (prompt_for [(''notes'', JStr ''mtg w/ Bob'')]) = Raises ?k"
    by (simp add: demo_env_simps always_def)
  have h2: "generate_content ?e2 (prompt_for [(''notes'', JStr ''mtg w/ Bob'')]) = Raises ?o"
    by (simp add: demo_env_simps always_def)
  have k: "\<not> (sublist ''503'' ?k \<or> contains_ci ''unavailable'' ?k
              \<or> contains_ci ''model is overloaded'' ?k)"
    using invalid_api_key_not_transient unfolding transient_def .
  have o: "sublist ''503'' ?o \<or> contains_ci ''unavailable'' ?o
              \<or> contains_ci ''model is overloaded'' ?o"
    using overloaded_transient unfolding transient_def .
  have w0: "files empty_world = Map.empty"
    by (simp add: empty_world_def)
  from provider_error_is_classified [OF demo_request_data h1, of empty_world]
  have a: "fst (process_notes ?e1 empty_world demo_request)
             = Inr (Response 500 (JObj [(''error'', JStr ?k)]))
         \<and> files (snd (process_notes ?e1 empty_world demo_request)) = Map.empty"
    by (simp only: k invalid_api_key_not_transient w0 if_False simp_thms)
  from provider_error_is_classified [OF demo_request_data h2, of empty_world]
  have b: "fst (process_notes ?e2 empty_world demo_request)
             = Inr (Response 503
                 (JObj [(''error'', JStr ''The AI model is not available. Please try again later.'')]))"
    by (simp only: o if_True simp_thms)
  from a b show ?thesis
    by blast
qed

text \<open>
  Claim C4. When the exception of the provider call is transient, the view tries to write
  the prompt it sent, and nothing else, to the file failed_prompt_<timestamp>.txt of the
  directory failed_prompts beside the module, the timestamp carrying the fields of the UTC
  time in the format YYYYMMDDTHHMMSSZ. When opening the file raises, no file changes; when
  the write raises, the file holds the part of the prompt that had reached it; in every
  case the answer is HTTP 503 with the fixed message.
\<close>

theorem transient_error_saves_prompt:
  assumes "py_or body (JObj []) = JObj kvs"
    and "generate_content e (prompt_for kvs) = Raises err"
    and "transient err"
    and "valid_datetime (utcnow e)"
  shows "fst (process_notes e w body) =
       Inr (Response 503
         (JObj [(''error'', JStr ''The AI model is not available. Please try again later.'')]))
     \<and> provider_calls (snd (process_notes e w body)) = provider_calls w @ [prompt_for kvs]
     \<and> files (snd (process_notes e w body)) =
         (case open_w e (failed_prompt_file (module_dir e) (strftime (utcnow e))) of
            Some x \<Rightarrow> files w
          | None \<Rightarrow>
              (files w)(failed_prompt_file (module_dir e) (strftime (utcnow e)) \<mapsto>
                 (case file_write e (failed_prompt_file (module_dir e) (strftime (utcnow e)))
                         (prompt_for kvs) of
                    Written \<Rightarrow> prompt_for kvs
                  | WriteRaises m n \<Rightarrow> take n (prompt_for kvs))))
     \<and> timestamp_of (utcnow e) (strftime (utcnow e))"
proof (intro conjI)
  show "fst (process_notes e w body) =
       Inr (Response 503
         (JObj [(''error'', JStr ''The AI model is not available. Please try again later.'')]))"
    using process_notes_raises(1) [OF assms(1) assms(2), of w] assms(3)
    by (simp add: unavailable_message_def)
  show "provider_calls (snd (process_notes e w body)) = provider_calls w @ [prompt_for kvs]"
    by (rule process_notes_raises(3) [OF assms(1) assms(2)])
  show "files (snd (process_notes e w body)) =
         (case open_w e (failed_prompt_file (module_dir e) (strftime (utcnow e))) of
            Some x \<Rightarrow> files w
          | None \<Rightarrow>
              (files w)(failed_prompt_file (module_dir e) (strftime (utcnow e)) \<mapsto>
                 (case file_write e (failed_prompt_file (module_dir e) (strftime (utcnow e)))
                         (prompt_for kvs) of
                    Written \<Rightarrow> prompt_for kvs
                  | WriteRaises m n \<Rightarrow> take n (prompt_for kvs))))"
    using process_notes_raises(2) [OF assms(1) assms(2), of w, unfolded failed_prompt_path_explicit]
      assms(3)
    by (simp only: if_True)
  show "timestamp_of (utcnow e) (strftime (utcnow e))"
    using assms(4) by (rule strftime_fields)
qed

theorem transient_error_saves_prompt_witness:
  "fst (process_notes (demo_env Map.empty (always (Raises ''503 Service Unavailable'')) Map.empty [])
          empty_world demo_request)
     = Inr (Response 503
         (JObj [(''error'', JStr ''The AI model is not available. Please try again later.'')]))
   \<and> files (snd (process_notes
        (demo_env Map.empty (always (Raises ''503 Service Unavailable'')) Map.empty [])
        empty_world demo_request))
     = [''/srv/app/failed_prompts/failed_prompt_20250102T030405Z.txt''
          \<mapsto> prompt_for [(''notes'', JStr ''mtg w/ Bob'')]]
   \<and> files (snd (process_notes
        ((demo_env Map.empty (always (Raises ''503 Service Unavailable'')) Map.empty [])
           \<lparr>utcnow := other_clock\<rparr>)
        empty_world demo_request))
     = [''/srv/app/failed_prompts/failed_prompt_20311224T183059Z.txt''
          \<mapsto> prompt_for [(''notes'', JStr ''mtg w/ Bob'')]]
   \<and> fst (process_notes
        (demo_env Map.empty (always (Raises ''503 Service Unavailable''))
           [''/srv/app/failed_prompts/failed_prompt_20250102T030405Z.txt'' \<mapsto> ''Permission denied''] [])
        empty_world demo_request)
     = Inr (Response 503
         (JObj [(''error'', JStr ''The AI model is not available. Please try again later.'')]))
   \<and> files (snd (process_notes
        (demo_env Map.empty (always (Raises ''503 Service Unavailable''))
           [''/srv/app/failed_prompts/failed_prompt_20250102T030405Z.txt'' \<mapsto> ''Permission denied''] [])
        empty_world demo_request))
     = Map.empty
   \<and> fst (process_notes
        ((demo_env Map.empty (always (Raises ''503 Service Unavailable'')) Map.empty [])
           \<lparr>file_write := writes_raise ''No space left on device'' 0\<rparr>)
        empty_world demo_request)
     = Inr (Response 503
         (JObj [(''error'', JStr ''The AI model is not available. Please try again later.'')]))
   \<and> files (snd (process_notes
        ((demo_env Map.empty (always (Raises ''503 Service Unavailable'')) Map.empty [])
           \<lparr>file_write := writes_raise ''No space left on device'' 0\<rparr>)
        empty_world demo_request))
     = [''/srv/app/failed_prompts/failed_prompt_20250102T030405Z.txt'' \<mapsto> '''']"
proof -
  let ?p = "''/srv/app/failed_prompts/failed_prompt_20250102T030405Z.txt''"
  let ?r = "always (Raises ''503 Service Unavailable'')"
  let ?kvs = "[(''notes'', JStr ''mtg w/ Bob'')]"
  let ?e1 = "demo_env Map.empty ?r Map.empty []"
  let ?e2 = "demo_env Map.empty ?r [?p \<mapsto> ''Permission denied''] []"
  let ?e3 = "?e1\<lparr>file_write := writes_raise ''No space left on device'' 0\<rparr>"
  let ?e4 = "?e1\<lparr>utcnow := other_clock\<rparr>"
  have h1: "generate_content ?e1 (prompt_for ?kvs) = Raises ''503 Service Unavailable''"
    by (simp add: demo_env_simps always_def)
  have h2: "generate_content ?e2 (prompt_for ?kvs) = Raises ''503 Service Unavailable''"
    by (simp add: demo_env_simps always_def)
  have h3: "generate_content ?e3 (prompt_for ?kvs) = Raises ''503 Service Unavailable''"
    by (simp add: demo_env_simps always_def)
  have h4: "generate_content ?e4 (prompt_for ?kvs) = Raises ''503 Service Unavailable''"
    by (simp add: demo_env_simps always_def)
  have c1: "valid_datetime (utcnow ?e1)"
    by (simp add: demo_env_simps demo_clock_valid)
  have c2: "valid_datetime (utcnow ?e2)"
    by (simp add: demo_env_simps demo_clock_valid)
  have c3: "valid_datetime (utcnow ?e3)"
    by (simp add: demo_env_simps demo_clock_valid)
  have c4: "valid_datetime (utcnow ?e4)"
    by (simp add: other_clock_valid)
  have w0: "files empty_world = Map.empty"
    by (simp add: empty_world_def)
  have a: "fst (process_notes ?e1 empty_world demo_request)
        = Inr (Response 503
            (JObj [(''error'', JStr ''The AI model is not available. Please try again later.'')]))
      \<and> files (snd (process_notes ?e1 empty_world demo_request)) = [?p \<mapsto> prompt_for ?kvs]"
    using transient_error_saves_prompt [OF demo_request_data h1 unavailable_transient c1,
        of empty_world]
    by (simp add: w0 demo_env_simps demo_strftime demo_failed_prompt_file writes_succeed_def)
  have b: "fst (process_notes ?e2 empty_world demo_request)
        = Inr (Response 503
            (JObj [(''error'', JStr ''The AI model is not available. Please try again later.'')]))
      \<and> files (snd (process_notes ?e2 empty_world demo_request)) = Map.empty"
    using transient_error_saves_prompt [OF demo_request_data h2 unavailable_transient c2,
        of empty_world]
    by (simp add: w0 demo_env_simps demo_strftime demo_failed_prompt_file)
  have c: "fst (process_notes ?e3 empty_world demo_request)
        = Inr (Response 503
            (JObj [(''error'', JStr ''The AI model is not available. Please try again later.'')]))
      \<and> files (snd (process_notes ?e3 empty_world demo_request)) = [?p \<mapsto> '''']"
    using transient_error_saves_prompt [OF demo_request_data h3 unavailable_transient c3,
        of empty_world]
    by (simp add: w0 demo_env_simps demo_strftime demo_failed_prompt_file writes_raise_def)
  have d: "files (snd (process_notes ?e4 empty_world demo_request))
        = [''/srv/app/failed_prompts/failed_prompt_20311224T183059Z.txt'' \<mapsto> prompt_for ?kvs]"
    using transient_error_saves_prompt [OF demo_request_data h4 unavailable_transient c4,
        of empty_world]
    by (simp add: w0 demo_env_simps demo_strftime demo_failed_prompt_file writes_succeed_def)
  from a b c d show ?thesis
    by blast
qed

section \<open>Properties of the request fields\<close>

lemma py_or_dict: "py_or (JObj kvs) (JObj []) = JObj kvs"
  by (simp add: py_or_def)

lemma py_or_null: "py_or JNull (JObj []) = JObj []"
  by (simp add: py_or_def)

lemma process_notes_calls:
  assumes "py_or body (JObj []) = JObj kvs"
  shows "provider_calls (snd (process_notes e w body)) = provider_calls w @ [prompt_for kvs]"
proof (cases "generate_content e (prompt_for kvs)")
  case (Returns t)
  show ?thesis
  proof (cases t)
    case None
    with Returns assms show ?thesis
      by (simp add: process_notes_none_text(2))
  next
    case (Some reply)
    with Returns assms show ?thesis
      by (simp add: process_notes_success)
  qed
next
  case (Raises err)
  with assms show ?thesis
    by (rule process_notes_raises(3))
qed



lemma null_tone_differs: "build_prompt t JNull n \<noteq> build_prompt t (JStr ''General'') n"
  by (simp add: build_prompt_def py_str_def)



text \<open>
  Claim C9. The defaults depend on a key being absent, not on its value: a body that is
  JSON null is handled as the empty object is, while a key that is present with the value
  null is used as it is, so that a null tone puts None, not General, into the prompt.
\<close>

theorem defaults_keyed_on_absence:
  "process_notes e w JNull = process_notes e w (JObj [])
   \<and> (map_of kvs ''tone'' = Some JNull \<longrightarrow>
        provider_calls (snd (process_notes e w (JObj kvs))) =
          provider_calls w @
          [build_prompt (dict_get kvs ''topic'' (JStr '''')) JNull (dict_get kvs ''notes'' (JStr ''''))])
   \<and> build_prompt t JNull n =
        prompt_head @ py_str t @ ''\<newline>    Tone: None''
        @ ''\<newline>    Scribbled Notes:\<newline>    '' @ py_str n @ ''\<newline>    ''
   \<and> build_prompt t JNull n \<noteq> build_prompt t (JStr ''General'') n"
proof (intro conjI impI)
  show "process_notes e w JNull = process_notes e w (JObj [])"
    by (simp only: process_notes_dict [OF py_or_null] process_notes_dict [OF py_or_dict])
  show "provider_calls (snd (process_notes e w (JObj kvs))) =
          provider_calls w @
          [build_prompt (dict_get kvs ''topic'' (JStr '''')) JNull (dict_get kvs ''notes'' (JStr ''''))]"
    if "map_of kvs ''tone'' = Some JNull"
    using process_notes_calls [OF py_or_dict, of e w kvs] that
    by (simp add: prompt_for_def dict_get_def)
  show "build_prompt t JNull n =
        prompt_head @ py_str t @ ''\<newline>    Tone: None''
        @ ''\<newline>    Scribbled Notes:\<newline>    '' @ py_str n @ ''\<newline>    ''"
    by (simp add: build_prompt_def py_str_def)
  show "build_prompt t JNull n \<noteq> build_prompt t (JStr ''General'') n"
    by (rule null_tone_differs)
qed

theorem defaults_keyed_on_absence_witness:
  "map_of [(''tone'', JNull)] ''tone'' = Some JNull
   \<and> provider_calls (snd (process_notes
        (demo_env Map.empty (always (Returns (Some ''ok''))) Map.empty []) empty_world
        (JObj [(''tone'', JNull)])))
     = [build_prompt (JStr '''') JNull (JStr '''')]
   \<and> build_prompt (JStr '''') JNull (JStr '''') \<noteq> build_prompt (JStr '''') (JStr ''General'') (JStr '''')"
proof -
  have h: "map_of [(''tone'', JNull)] ''tone'' = Some JNull"
    by simp
  have w0: "provider_calls empty_world = []"
    by (simp add: empty_world_def)
  note t = defaults_keyed_on_absence [of "demo_env Map.empty (always (Returns (Some ''ok''))) Map.empty []"
      empty_world "[(''tone'', JNull)]" "JStr ''''" "JStr ''''"]
  from t h have "provider_calls (snd (process_notes
        (demo_env Map.empty (always (Returns (Some ''ok''))) Map.empty []) empty_world
        (JObj [(''tone'', JNull)])))
     = provider_calls empty_world @
       [build_prompt (dict_get [(''tone'', JNull)] ''topic'' (JStr '''')) JNull
          (dict_get [(''tone'', JNull)] ''notes'' (JStr ''''))]"
    by blast
  then have b: "provider_calls (snd (process_notes
        (demo_env Map.empty (always (Returns (Some ''ok''))) Map.empty []) empty_world
        (JObj [(''tone'', JNull)])))
     = [build_prompt (JStr '''') JNull (JStr '''')]"
    by (simp add: w0 dict_get_def)
  from t have d: "build_prompt (JStr '''') JNull (JStr '''')
      \<noteq> build_prompt (JStr '''') (JStr ''General'') (JStr '''')"
    by blast
  from h b d show ?thesis
    by blast
qed

section \<open>Properties of serve_react\<close>

text \<open>
  The view itself: for a path that is not empty and exists under the static folder it
  answers with that file; otherwise, when index.html exists there, with index.html;
  otherwise with HTTP 200 and the JSON status that no frontend build was found.
\<close>

lemma serve_react_fallback_chain:
  "(path \<noteq> [] \<and> path_exists e (path_join (static_folder e) path) \<longrightarrow>
      serve_react e path = SendFromDirectory (static_folder e) path)
   \<and> (\<not> (path \<noteq> [] \<and> path_exists e (path_join (static_folder e) path))
        \<and> path_exists e (path_join (static_folder e) ''index.html'') \<longrightarrow>
      serve_react e path = SendFromDirectory (static_folder e) ''index.html'')
   \<and> (\<not> (path \<noteq> [] \<and> path_exists e (path_join (static_folder e) path))
        \<and> \<not> path_exists e (path_join (static_folder e) ''index.html'') \<longrightarrow>
      serve_react e path =
        Response 200 (JObj [(''status'', JStr ''Backend running. Frontend build not found.'')]))"
  by (simp add: serve_react_def Let_def)

text \<open>
  The requests that reach the view: the rule of the static files comes first and matches
  every path that is not empty, so only the request for the root does.
\<close>

lemma handle_get_root: "handle_get e [] = serve_react e []"
  by (simp add: handle_get_def get_rules_def)

lemma handle_get_path:
  assumes "p \<noteq> []" and "hd p \<noteq> CHR ''/''"
  shows "handle_get e p = SendFromDirectory (static_folder e) p"
  using assms by (simp add: handle_get_def get_rules_def)

text \<open>
  Claim C7 says that every GET request outside the API route goes through the chain of
  the view: the file at the path, else index.html, else HTTP 200 with the JSON status.
  The application answers that way for the root only. With no static build present, the
  request for nonexistent/path is answered by the rule of the static files, that is by
  \<^verbatim>\<open>send_from_directory\<close> for a file that does not exist, and not with the
  status that the view would give for the same path.
\<close>

theorem get_nonexistent_path_bypasses_view:
  "handle_get (demo_env Map.empty (always (Returns None)) Map.empty []) ''nonexistent/path''
     = SendFromDirectory ''/srv/app/static'' ''nonexistent/path''
   \<and> serve_react (demo_env Map.empty (always (Returns None)) Map.empty []) ''nonexistent/path''
     = Response 200 (JObj [(''status'', JStr ''Backend running. Frontend build not found.'')])"
proof -
  let ?e = "demo_env Map.empty (always (Returns None)) Map.empty []"
  have "handle_get ?e ''nonexistent/path'' = SendFromDirectory (static_folder ?e) ''nonexistent/path''"
    by (rule handle_get_path) simp_all
  moreover have "serve_react ?e ''nonexistent/path''
      = Response 200 (JObj [(''status'', JStr ''Backend running. Frontend build not found.'')])"
    by (simp add: serve_react_def Let_def demo_env_simps path_join_def)
  ultimately show ?thesis
    by (simp add: demo_env_simps)
qed

end
